theory Spec2Isabelle
  imports Main
begin

section \<open>Values, strings and exceptions\<close>

text \<open>
  The values \<open>json.load\<close> produces and \<open>json.dump\<close> accepts. A \<open>JObj\<close> holds the items
  of a Python dict in insertion order (its keys are distinct). Numbers are never inspected by
  the code; integers stand for them.
\<close>

datatype json =
    JNull
  | JBool bool
  | JNum int
  | JStr string
  | JArr "json list"
  | JObj "(string \<times> json) list"

text \<open>Python truthiness, as used by \<open>if new_target:\<close> and \<open>... or ...\<close>.\<close>

fun truthy :: "json \<Rightarrow> bool" where
  "truthy JNull = False"
| "truthy (JBool b) = b"
| "truthy (JNum n) = (n \<noteq> 0)"
| "truthy (JStr s) = (s \<noteq> [])"
| "truthy (JArr xs) = (xs \<noteq> [])"
| "truthy (JObj kvs) = (kvs \<noteq> [])"

text \<open>\<open>d.get(k, default)\<close> on a dict.\<close>

definition dict_get :: "(string \<times> json) list \<Rightarrow> string \<Rightarrow> json \<Rightarrow> json" where
  "dict_get d k dflt = (case map_of d k of None \<Rightarrow> dflt | Some v \<Rightarrow> v)"

text \<open>\<open>d[k] = v\<close> on an insertion-ordered dict: an existing key keeps its position.\<close>

fun dict_set :: "(string \<times> 'v) list \<Rightarrow> string \<Rightarrow> 'v \<Rightarrow> (string \<times> 'v) list" where
  "dict_set [] k v = [(k, v)]"
| "dict_set ((k', v') # d) k v = (if k' = k then (k, v) # d else (k', v') # dict_set d k v)"

text \<open>
  The exceptions the code raises or catches. \<open>HTTPException\<close> carries the status code and the
  detail; \<open>DriverError\<close> is any failure of the graph driver, with its message.
\<close>

datatype exn =
    HTTPException nat string
  | AttributeError
  | OSError
  | UnicodeDecodeError
  | DriverError string

text \<open>Decimal printing, as in \<open>f"{port}"\<close>.\<close>

fun str_nat :: "nat \<Rightarrow> string" where
  "str_nat n =
     (if n < 10 then [char_of (48 + n)]
      else str_nat (n div 10) @ [char_of (48 + n mod 10)])"

definition str_int :: "int \<Rightarrow> string" where
  "str_int i = (if i < 0 then CHR ''-'' # str_nat (nat (- i)) else str_nat (nat i))"

text \<open>\<open>str(e)\<close>: an \<open>HTTPException\<close> prints as \<open>code: detail\<close>, a driver error as its message.\<close>

fun str_exn :: "exn \<Rightarrow> string" where
  "str_exn (HTTPException c d) = str_nat c @ '': '' @ d"
| "str_exn AttributeError = ''AttributeError''"
| "str_exn OSError = ''OSError''"
| "str_exn UnicodeDecodeError = ''UnicodeDecodeError''"
| "str_exn (DriverError m) = m"

text \<open>
  \<open>str.isspace\<close>, \<open>str.strip()\<close>, \<open>str.lower()\<close> and \<open>str.split(sep)\<close> on characters read
  as code points below 256.
\<close>

definition isspace :: "char \<Rightarrow> bool" where
  "isspace c = (of_char c \<in> {9, 10, 11, 12, 13, 28, 29, 30, 31, 32, 133, 160 :: nat})"

definition strip :: "string \<Rightarrow> string" where
  "strip s = rev (dropWhile isspace (rev (dropWhile isspace s)))"

definition lower_char :: "char \<Rightarrow> char" where
  "lower_char c =
     (let n = (of_char c :: nat)
      in if (65 \<le> n \<and> n \<le> 90) \<or> (192 \<le> n \<and> n \<le> 222 \<and> n \<noteq> 215)
         then char_of (n + 32) else c)"

definition lower :: "string \<Rightarrow> string" where
  "lower s = map lower_char s"

text \<open>
  \<open>s.split(sep)\<close> for a non-empty separator: \<open>acc\<close> holds the current piece, reversed.
\<close>

fun split_from :: "string \<Rightarrow> string \<Rightarrow> string \<Rightarrow> string list" where
  "split_from sep acc [] = [rev acc]"
| "split_from sep acc (c # cs) =
     (if sep \<noteq> [] \<and> take (length sep) (c # cs) = sep
      then rev acc # split_from sep [] (drop (length sep - 1) cs)
      else split_from sep (c # acc) cs)"

definition split :: "string \<Rightarrow> string \<Rightarrow> string list" where
  "split s sep = split_from sep [] s"

text \<open>\<open>needle in haystack\<close> on strings.\<close>

fun contains :: "string \<Rightarrow> string \<Rightarrow> bool" where
  "contains [] needle = (needle = [])"
| "contains (c # cs) needle =
     (take (length needle) (c # cs) = needle \<or> contains cs needle)"

text \<open>\<open>sep.join(xs)\<close>.\<close>

fun join :: "string \<Rightarrow> string list \<Rightarrow> string" where
  "join sep [] = []"
| "join sep [x] = x"
| "join sep (x # y # ys) = x @ sep @ join sep (y # ys)"

section \<open>The monitoring target files\<close>

text \<open>
  What reading a target file gives: the path does not exist; opening or reading it raises
  an \<open>OSError\<close>; its bytes are not valid text, so that the read inside \<open>json.load\<close>
  raises \<open>UnicodeDecodeError\<close> (a \<open>ValueError\<close> that is not a \<open>JSONDecodeError\<close>);
  its text (possibly empty) is not JSON, so that \<open>json.load\<close> raises \<open>JSONDecodeError\<close>;
  or \<open>json.load\<close> returns a value.
\<close>

datatype file_state = Missing | Unreadable | Undecodable | Malformed | Parsed json

type_synonym files = "string \<Rightarrow> file_state"

definition TARGETS_MINIO_FILE :: string where
  "TARGETS_MINIO_FILE = ''targets_minio.json''"

definition TARGETS_NODE_FILE :: string where
  "TARGETS_NODE_FILE = ''targets_node.json''"


text \<open>
  Lines 33-40 of \<open>update_target_file\<close>: the entries read from the store. The handler of
  line 39 catches \<open>JSONDecodeError\<close> only; any other exception leaves the \<open>try\<close> of
  line 32.
\<close>

fun load_targets :: "file_state \<Rightarrow> exn + json list" where
  "load_targets Missing = Inr []"
| "load_targets Unreadable = Inl OSError"
| "load_targets Undecodable = Inl UnicodeDecodeError"
| "load_targets Malformed = Inr []"
| "load_targets (Parsed v) = (case v of JArr xs \<Rightarrow> Inr xs | _ \<Rightarrow> Inr [])"

text \<open>
  \<open>t.get('labels', {}).get('alias') != alias\<close>: an entry that is not a dict, or whose
  \<open>labels\<close> is not a dict, has no \<open>get\<close> and raises \<open>AttributeError\<close>.
\<close>

fun alias_differs :: "json \<Rightarrow> string \<Rightarrow> exn + bool" where
  "alias_differs (JObj t) alias =
     (case dict_get t ''labels'' (JObj []) of
        JObj l \<Rightarrow> Inr (dict_get l ''alias'' JNull \<noteq> JStr alias)
      | _ \<Rightarrow> Inl AttributeError)"
| "alias_differs _ alias = Inl AttributeError"

text \<open>The list comprehension of line 43; it stops at the first entry that raises.\<close>

fun drop_alias :: "json list \<Rightarrow> string \<Rightarrow> exn + json list" where
  "drop_alias [] alias = Inr []"
| "drop_alias (t # ts) alias =
     (case alias_differs t alias of
        Inl e \<Rightarrow> Inl e
      | Inr keep \<Rightarrow>
          (case drop_alias ts alias of
             Inl e \<Rightarrow> Inl e
           | Inr r \<Rightarrow> Inr (if keep then t # r else r)))"

text \<open>Lines 45-46: the entry appended, if any.\<close>

definition appended :: "json option \<Rightarrow> json list" where
  "appended new_target =
     (case new_target of None \<Rightarrow> [] | Some t \<Rightarrow> if truthy t then [t] else [])"

text \<open>
  \<open>update_target_file\<close>. \<open>write_fails\<close> tells for which paths opening the file for
  writing raises. Every exception is caught (and printed) by the outer handler, which leaves
  the file as it was; the function returns nothing.
\<close>

definition update_target_file ::
  "(string \<Rightarrow> bool) \<Rightarrow> string \<Rightarrow> string \<Rightarrow> json option \<Rightarrow> files \<Rightarrow> files" where
  "update_target_file write_fails filepath alias new_target fs =
     (case load_targets (fs filepath) of
        Inl e \<Rightarrow> fs
      | Inr data \<Rightarrow>
          (case drop_alias data alias of
             Inl e \<Rightarrow> fs
           | Inr kept \<Rightarrow>
               if write_fails filepath then fs
               else fs(filepath := Parsed (JArr (kept @ appended new_target)))))"

section \<open>The topology ledger\<close>

text \<open>
  The graph store: \<open>MinIONode\<close> and \<open>MinIOCluster\<close> records with the properties the code
  writes, and the \<open>MEMBER_OF\<close> edges between their identities.
\<close>

record minio_node =
  n_id :: nat
  n_ip :: string
  n_name :: string
  n_status :: string
  n_last_seen :: int

record minio_cluster =
  c_id :: nat
  c_name :: string
  c_created_at :: int

record ledger =
  nodes :: "minio_node list"
  clusters :: "minio_cluster list"
  member_of :: "(nat \<times> nat) list"
  next_id :: nat

text \<open>
  \<open>MERGE (n:MinIONode {ip: $ip}) SET n.name = $name, n.status = $status,
  n.last_seen = timestamp()\<close>: every node matching the address is updated; when none
  matches, one is created.
\<close>

definition merge_node :: "string \<Rightarrow> string \<Rightarrow> string \<Rightarrow> int \<Rightarrow> ledger \<Rightarrow> ledger" where
  "merge_node ip name status ts L =
     (if ip \<in> set (map n_ip (nodes L))
      then L\<lparr>nodes :=
               map (\<lambda>n. if n_ip n = ip
                         then n\<lparr>n_name := name, n_status := status, n_last_seen := ts\<rparr>
                         else n) (nodes L)\<rparr>
      else L\<lparr>nodes := nodes L @
                 [\<lparr>n_id = next_id L, n_ip = ip, n_name = name,
                   n_status = status, n_last_seen = ts\<rparr>],
             next_id := Suc (next_id L)\<rparr>)"

text \<open>
  \<open>MATCH (n:MinIONode {name: $name}) DETACH DELETE n RETURN count(n)\<close>: the count and
  the ledger without the matching nodes and their edges.
\<close>

definition detach_delete_node :: "string \<Rightarrow> ledger \<Rightarrow> nat \<times> ledger" where
  "detach_delete_node name L =
     (let gone = filter (\<lambda>n. n_name n = name) (nodes L)
      in (length gone,
          L\<lparr>nodes := filter (\<lambda>n. n_name n \<noteq> name) (nodes L),
            member_of := filter (\<lambda>e. fst e \<notin> set (map n_id gone)) (member_of L)\<rparr>))"

text \<open>\<open>MERGE (c:MinIOCluster {name: $name}) SET c.created_at = timestamp()\<close>.\<close>

definition merge_cluster :: "string \<Rightarrow> int \<Rightarrow> ledger \<Rightarrow> ledger" where
  "merge_cluster name ts L =
     (if name \<in> set (map c_name (clusters L))
      then L\<lparr>clusters :=
               map (\<lambda>c. if c_name c = name then c\<lparr>c_created_at := ts\<rparr> else c)
                 (clusters L)\<rparr>
      else L\<lparr>clusters := clusters L @
                 [\<lparr>c_id = next_id L, c_name = name, c_created_at = ts\<rparr>],
             next_id := Suc (next_id L)\<rparr>)"

text \<open>
  \<open>MATCH (c:MinIOCluster {name: $name}) UNWIND $ips AS ip MATCH (n:MinIONode {ip: ip})
  MERGE (n)-[:MEMBER_OF]->(c)\<close>: an edge is created only where there is none yet.
\<close>

definition add_edge :: "(nat \<times> nat) list \<Rightarrow> nat \<times> nat \<Rightarrow> (nat \<times> nat) list" where
  "add_edge es e = (if e \<in> set es then es else es @ [e])"

definition link_members :: "string \<Rightarrow> string list \<Rightarrow> ledger \<Rightarrow> ledger" where
  "link_members name ips L =
     L\<lparr>member_of :=
         foldl add_edge (member_of L)
           (concat (map (\<lambda>c. concat (map (\<lambda>ip.
              map (\<lambda>n. (n_id n, c_id c)) (filter (\<lambda>n. n_ip n = ip) (nodes L))) ips))
              (filter (\<lambda>c. c_name c = name) (clusters L))))\<rparr>"

section \<open>The environment of a request\<close>

text \<open>
  What the outside world answers during one request: the reply to each health probe, the
  result of each shell command, \<open>json.loads\<close> (taken as given; \<open>None\<close> is
  \<open>JSONDecodeError\<close>), whether the ledger can be reached and which query of the request
  fails, the value of \<open>timestamp()\<close>, and the paths that cannot be written.
\<close>

datatype probe_result = Responded nat | NoResponse

record proc =
  returncode :: int
  stdout :: string
  stderr :: string

datatype db_fault = NoFault | ConnectFails | QueryFails nat string

record env =
  http_get :: "string \<Rightarrow> probe_result"
  shell :: "string \<Rightarrow> proc"
  json_loads :: "string \<Rightarrow> json option"
  db :: db_fault
  timestamp :: int
  write_fails :: "string \<Rightarrow> bool"

text \<open>The state the requests act on, with the external calls made so far.\<close>

datatype ext_call = HttpGet string | Subprocess string | LedgerSession

record world =
  ledger :: ledger
  files :: files
  calls :: "ext_call list"

text \<open>
  \<open>get_db_session\<close>: a connection failure is raised as a 503. Each \<open>session.run\<close> is one
  transaction, applied or not; \<open>session_run env k\<close> is the exception (if any) raised by the
  \<open>k\<close>-th query of the request.
\<close>

definition get_db_session :: "env \<Rightarrow> exn option" where
  "get_db_session env =
     (case db env of
        ConnectFails \<Rightarrow> Some (HTTPException 503 ''Ledger is warming up, please wait.'')
      | _ \<Rightarrow> None)"

definition session_run :: "env \<Rightarrow> nat \<Rightarrow> exn option" where
  "session_run env k =
     (case db env of
        QueryFails j m \<Rightarrow> if j = k then Some (DriverError m) else None
      | _ \<Rightarrow> None)"

section \<open>Health probe\<close>

definition health_url :: "string \<Rightarrow> int \<Rightarrow> string" where
  "health_url ip port = ''http://'' @ ip @ '':'' @ str_int port @ ''/minio/health/live''"

definition check_minio_health :: "env \<Rightarrow> string \<Rightarrow> int \<Rightarrow> bool" where
  "check_minio_health env ip port =
     (case http_get env (health_url ip port) of
        Responded code \<Rightarrow> code = 200
      | NoResponse \<Rightarrow> False)"

section \<open>Registering and removing a node\<close>

definition minio_target :: "string \<Rightarrow> string \<Rightarrow> json" where
  "minio_target name ip =
     JObj [(''targets'', JArr [JStr (ip @ '':9001''), JStr (ip @ '':9003'')]),
           (''labels'', JObj [(''alias'', JStr name)])]"

definition node_target :: "string \<Rightarrow> string \<Rightarrow> int \<Rightarrow> json" where
  "node_target name ip node_port =
     JObj [(''targets'', JArr [JStr (ip @ '':'' @ str_int node_port)]),
           (''labels'', JObj [(''alias'', JStr name)])]"

definition node_status :: "bool \<Rightarrow> bool \<Rightarrow> string" where
  "node_status is_a_alive is_b_alive =
     (if is_a_alive \<and> is_b_alive then ''active'' else ''degraded'')"

definition register_node ::
  "env \<Rightarrow> string \<Rightarrow> string \<Rightarrow> int \<Rightarrow> world \<Rightarrow> (exn + json) \<times> world" where
  "register_node env name ip node_port w =
     (let is_a_alive = check_minio_health env ip 9001;
          is_b_alive = check_minio_health env ip 9003;
          w1 = w\<lparr>calls := calls w @
                 [HttpGet (health_url ip 9001), HttpGet (health_url ip 9003), LedgerSession]\<rparr>
      in case get_db_session env of
           Some e \<Rightarrow> (Inl (HTTPException 500 (''Neo4j Error: '' @ str_exn e)), w1)
         | None \<Rightarrow>
             (case session_run env 0 of
                Some e \<Rightarrow> (Inl (HTTPException 500 (''Neo4j Error: '' @ str_exn e)), w1)
              | None \<Rightarrow>
                  (let status = node_status is_a_alive is_b_alive;
                       L = merge_node ip name status (timestamp env) (ledger w1);
                       f1 = update_target_file (write_fails env) TARGETS_MINIO_FILE name
                              (Some (minio_target name ip)) (files w1);
                       f2 = update_target_file (write_fails env) TARGETS_NODE_FILE name
                              (Some (node_target name ip node_port)) f1
                   in (Inr (JObj [(''status'', JStr ''registered''),
                                  (''node'', JStr name),
                                  (''health'', JObj [(''instance_a'', JBool is_a_alive),
                                                     (''instance_b'', JBool is_b_alive)]),
                                  (''monitoring'', JObj [(''minio'', JStr ''enabled''),
                                                         (''node'', JStr ''enabled'')])]),
                       w1\<lparr>ledger := L, files := f2\<rparr>))))"

definition delete_node :: "env \<Rightarrow> string \<Rightarrow> world \<Rightarrow> (exn + json) \<times> world" where
  "delete_node env name w =
     (let w1 = w\<lparr>calls := calls w @ [LedgerSession]\<rparr>
      in case get_db_session env of
           Some e \<Rightarrow> (Inl e, w1)
         | None \<Rightarrow>
             (case session_run env 0 of
                Some e \<Rightarrow>
                  (Inl (HTTPException 500 (''Neo4j Delete Failed: '' @ str_exn e)), w1)
              | None \<Rightarrow>
                  (let (deleted_count, L) = detach_delete_node name (ledger w1);
                       w2 = w1\<lparr>ledger := L\<rparr>
                   in if deleted_count = 0
                      then (Inl (HTTPException 404
                                  (''Node '' @ [CHR 0x27] @ name @ [CHR 0x27] @
                                   '' not found in registry.'')), w2)
                      else
                        (let f1 = update_target_file (write_fails env) TARGETS_MINIO_FILE
                                    name None (files w2);
                             f2 = update_target_file (write_fails env) TARGETS_NODE_FILE
                                    name None f1
                         in (Inr (JObj [(''status'', JStr ''deleted''), (''node'', JStr name)]),
                             w2\<lparr>files := f2\<rparr>)))))"

section \<open>Forming a cluster\<close>

definition parse_aliases :: "string \<Rightarrow> string list" where
  "parse_aliases aliases = filter (\<lambda>a. a \<noteq> []) (map strip (split aliases '',''))"

definition reset_cmd :: "string \<Rightarrow> string" where
  "reset_cmd alias = ''mc admin replicate rm --all --force '' @ alias"

definition replicate_cmd :: "string list \<Rightarrow> string" where
  "replicate_cmd alias_list = ''mc admin replicate add '' @ join '' '' alias_list"

definition alias_list_cmd :: string where
  "alias_list_cmd = ''mc alias list --json''"

text \<open>\<open>url.split("://")[-1].split(":")[0]\<close>; a split is never empty.\<close>

definition ip_part :: "string \<Rightarrow> string" where
  "ip_part url = hd (split (last (split url ''://'')) '':'')"

text \<open>
  One line of the alias listing (lines 353-364). Whatever raises inside (a line that is not
  JSON, a value that is not a dict, a URL that is not a string) is passed over.
\<close>

definition resolve_line ::
  "env \<Rightarrow> string list \<Rightarrow> (string \<times> string) list \<Rightarrow> string \<Rightarrow> (string \<times> string) list" where
  "resolve_line env alias_list alias_map line =
     (case json_loads env line of
        Some (JObj data) \<Rightarrow>
          (let a_name = dict_get data ''alias'' JNull;
               u = dict_get data ''URL'' (JStr []);
               url = (if truthy u then u else dict_get data ''url'' (JStr []))
           in case a_name of
                JStr a \<Rightarrow>
                  if a \<in> set alias_list \<and> truthy url
                  then (case url of
                          JStr s \<Rightarrow> dict_set alias_map a (ip_part s)
                        | _ \<Rightarrow> alias_map)
                  else alias_map
              | _ \<Rightarrow> alias_map)
      | _ \<Rightarrow> alias_map)"

definition resolve_aliases :: "env \<Rightarrow> string list \<Rightarrow> (string \<times> string) list" where
  "resolve_aliases env alias_list =
     (let proc_list = shell env alias_list_cmd
      in if returncode proc_list = 0
         then foldl (resolve_line env alias_list) []
                (split (strip (stdout proc_list)) [CHR 0x0A])
         else [])"

text \<open>
  Step 4 (lines 369-389): the exception raised inside, if any, and the ledger left behind.
  The handler prints the exception and the request goes on.
\<close>

definition update_cluster_ledger ::
  "env \<Rightarrow> string \<Rightarrow> string list \<Rightarrow> ledger \<Rightarrow> exn option \<times> ledger" where
  "update_cluster_ledger env name found_ips L =
     (case get_db_session env of
        Some e \<Rightarrow> (Some e, L)
      | None \<Rightarrow>
          (case session_run env 0 of
             Some e \<Rightarrow> (Some e, L)
           | None \<Rightarrow>
               (let L1 = merge_cluster name (timestamp env) L
                in if found_ips \<noteq> []
                   then (case session_run env 1 of
                           Some e \<Rightarrow> (Some e, L1)
                         | None \<Rightarrow> (None, link_members name found_ips L1))
                   else (None, L1))))"

text \<open>The dict returned at lines 391-396.\<close>

definition success_response :: "string \<Rightarrow> string list \<Rightarrow> (string \<times> string) list \<Rightarrow> json" where
  "success_response name alias_list alias_map =
     JObj [(''status'', JStr ''success''),
           (''cluster'', JStr name),
           (''members'', JArr (map JStr alias_list)),
           (''resolved_ips'', JObj (map (\<lambda>(a, ip). (a, JStr ip)) alias_map))]"

definition create_cluster :: "env \<Rightarrow> string \<Rightarrow> string \<Rightarrow> world \<Rightarrow> (exn + json) \<times> world" where
  "create_cluster env name aliases w =
     (let alias_list = parse_aliases aliases
      in if length alias_list < 2
         then (Inl (HTTPException 400 ''Cluster requires at least 2 aliases.''), w)
         else
           (let w1 = w\<lparr>calls := calls w @ map (\<lambda>a. Subprocess (reset_cmd a)) alias_list @
                                  [Subprocess (replicate_cmd alias_list)]\<rparr>;
                res = shell env (replicate_cmd alias_list)
            in if returncode res \<noteq> 0 \<and> \<not> contains (lower (stderr res)) ''already''
               then (Inl (HTTPException 500 (''Cluster formation failed: '' @ stderr res)), w1)
               else
                 (let alias_map = resolve_aliases env alias_list;
                      w2 = w1\<lparr>calls := calls w1 @ [Subprocess alias_list_cmd, LedgerSession]\<rparr>;
                      (caught, L) = update_cluster_ledger env name (map snd alias_map) (ledger w2)
                  in (Inr (success_response name alias_list alias_map),
                      w2\<lparr>ledger := L\<rparr>))))"

section \<open>Example inputs\<close>

text \<open>
  A request environment in which both probes answer 200, every command succeeds, the alias
  listing has one line for alias \<open>a\<close> and one line that is not JSON, and the ledger is up.
\<close>

definition example_env :: env where
  "example_env =
     \<lparr>http_get = (\<lambda>u. Responded 200),
      shell = (\<lambda>c. \<lparr>returncode = 0,
                     stdout = (if c = alias_list_cmd then ''L1'' @ [CHR 0x0A] @ ''L2'' else []),
                     stderr = []\<rparr>),
      json_loads = (\<lambda>s. if s = ''L1''
                          then Some (JObj [(''alias'', JStr ''a''),
                                           (''URL'', JStr ''http://10.0.0.1:9000'')])
                          else None),
      db = NoFault,
      timestamp = 200,
      write_fails = (\<lambda>p. False)\<rparr>"

text \<open>The same, with a join command that fails with the given return code and message.\<close>

definition join_fails_env :: "int \<Rightarrow> string \<Rightarrow> env" where
  "join_fails_env rc msg =
     example_env\<lparr>shell := (\<lambda>c. if c = ''mc admin replicate add a b''
                                then \<lparr>returncode = rc, stdout = [], stderr = msg\<rparr>
                                else shell example_env c)\<rparr>"

definition empty_ledger :: ledger where
  "empty_ledger = \<lparr>nodes = [], clusters = [], member_of = [], next_id = 0\<rparr>"

definition empty_world :: world where
  "empty_world = \<lparr>ledger = empty_ledger, files = (\<lambda>p. Missing), calls = []\<rparr>"

text \<open>A ledger with cluster \<open>prod\<close>, formed at time 100, and one node.\<close>

definition prod_world :: world where
  "prod_world =
     \<lparr>ledger = \<lparr>nodes = [\<lparr>n_id = 0, n_ip = ''10.0.0.1'', n_name = ''A'',
                           n_status = ''active'', n_last_seen = 50\<rparr>],
                 clusters = [\<lparr>c_id = 1, c_name = ''prod'', c_created_at = 100\<rparr>],
                 member_of = [(0, 1)],
                 next_id = 2\<rparr>,
      files = (\<lambda>p. Missing),
      calls = []\<rparr>"

text \<open>
  A storage-service target file with entries for aliases \<open>X\<close> and \<open>Y\<close> and a foreign entry
  without labels between them; a host-metrics target file that holds a dict, not a list.
\<close>

definition example_targets :: "json list" where
  "example_targets =
     [minio_target ''X'' ''10.0.0.1'',
      JObj [(''targets'', JArr [JStr ''203.0.113.9:9999''])],
      minio_target ''Y'' ''10.0.0.2'']"

definition example_files :: files where
  "example_files =
     (\<lambda>p. if p = TARGETS_MINIO_FILE then Parsed (JArr example_targets)
          else if p = TARGETS_NODE_FILE then Parsed (JObj [(''note'', JStr ''not a list'')])
          else Missing)"

text \<open>
  An environment in which neither probe answers, and a world with the example ledger and the
  example target files.
\<close>

definition probes_down_env :: env where
  "probes_down_env = example_env\<lparr>http_get := (\<lambda>u. NoResponse), timestamp := 300\<rparr>"

definition example_world :: world where
  "example_world = prod_world\<lparr>files := example_files\<rparr>"


text \<open>The example environment with an unreachable ledger.\<close>

definition ledger_down_env :: env where
  "ledger_down_env = example_env\<lparr>db := ConnectFails\<rparr>"

section \<open>Facts about the model shared by the proofs\<close>

lemma parse_aliases_a_b: "parse_aliases ''a,b'' = [''a'', ''b'']"
  by (simp add: parse_aliases_def split_def strip_def isspace_def)

lemma replicate_cmd_not_listing: "replicate_cmd al \<noteq> alias_list_cmd"
  by (simp add: replicate_cmd_def alias_list_cmd_def)

lemma join_fails_env_shell:
  "shell (join_fails_env rc msg) (replicate_cmd (parse_aliases ''a,b'')) =
     \<lparr>returncode = rc, stdout = [], stderr = msg\<rparr>"
  by (simp add: join_fails_env_def parse_aliases_a_b replicate_cmd_def)

text \<open>Resolution and the ledger step do not look at the result of the join command.\<close>

lemma resolve_line_shell [simp]: "resolve_line (env\<lparr>shell := s\<rparr>) = resolve_line env"
  by (intro ext) (simp add: resolve_line_def)

lemma resolve_aliases_shell:
  "s alias_list_cmd = shell env alias_list_cmd \<Longrightarrow>
   resolve_aliases (env\<lparr>shell := s\<rparr>) al = resolve_aliases env al"
  by (simp add: resolve_aliases_def Let_def)

lemma get_db_session_shell [simp]: "get_db_session (env\<lparr>shell := s\<rparr>) = get_db_session env"
  by (simp add: get_db_session_def)

lemma session_run_shell [simp]: "session_run (env\<lparr>shell := s\<rparr>) k = session_run env k"
  by (simp add: session_run_def)

lemma update_cluster_ledger_shell [simp]:
  "update_cluster_ledger (env\<lparr>shell := s\<rparr>) = update_cluster_ledger env"
  by (intro ext) (simp add: update_cluster_ledger_def Let_def split: option.splits)

text \<open>
  The path of \<open>create_cluster\<close> past validation and past the join command: the response
  and the world it leaves.
\<close>

lemma create_cluster_accepted:
  assumes "2 \<le> length (parse_aliases aliases)"
    and "returncode (shell env (replicate_cmd (parse_aliases aliases))) = 0 \<or>
         contains (lower (stderr (shell env (replicate_cmd (parse_aliases aliases)))))
           ''already''"
  shows "create_cluster env name aliases w =
           (Inr (success_response name (parse_aliases aliases)
                   (resolve_aliases env (parse_aliases aliases))),
            w\<lparr>calls := calls w @ map (\<lambda>a. Subprocess (reset_cmd a)) (parse_aliases aliases) @
                          [Subprocess (replicate_cmd (parse_aliases aliases)),
                           Subprocess alias_list_cmd, LedgerSession],
              ledger := snd (update_cluster_ledger env name
                               (map snd (resolve_aliases env (parse_aliases aliases)))
                               (ledger w))\<rparr>)"
  using assms by (auto simp add: create_cluster_def Let_def split: prod.splits)

text \<open>The comprehension of line 43 is a filter, unless an entry raises.\<close>

lemma drop_alias_filter:
  "drop_alias ts alias =
     (if \<exists>t \<in> set ts. \<exists>e. alias_differs t alias = Inl e
      then Inl AttributeError
      else Inr (filter (\<lambda>t. alias_differs t alias = Inr True) ts))"
proof (induction ts)
  case Nil
  show ?case by simp
next
  case (Cons t ts)
  have err: "e = AttributeError" if "alias_differs t alias = Inl e" for e
    using that by (cases t) (auto split: json.splits)
  show ?case
  proof (cases "alias_differs t alias")
    case (Inl e)
    with err [of e] show ?thesis by auto
  next
    case (Inr keep)
    with Cons.IH show ?thesis by auto
  qed
qed

lemma example_files_load: "load_targets (example_files TARGETS_MINIO_FILE) = Inr example_targets"
  by (simp add: example_files_def)

lemma example_targets_no_raise: "\<not> (\<exists>t \<in> set example_targets. \<exists>e. alias_differs t ''X'' = Inl e)"
  by (simp add: example_targets_def minio_target_def dict_get_def)

lemma example_targets_without_X: "filter (\<lambda>t. alias_differs t ''X'' = Inr True) example_targets =
   [JObj [(''targets'', JArr [JStr ''203.0.113.9:9999''])], minio_target ''Y'' ''10.0.0.2'']"
  by (simp add: example_targets_def minio_target_def dict_get_def)

text \<open>Registration when the ledger answers: what is written where.\<close>

lemma register_node_reached:
  assumes "get_db_session env = None" and "session_run env 0 = None"
  shows "(\<exists>r. fst (register_node env name ip node_port w) = Inr r) \<and>
         ledger (snd (register_node env name ip node_port w)) =
           merge_node ip name
             (node_status (check_minio_health env ip 9001) (check_minio_health env ip 9003))
             (timestamp env) (ledger w) \<and>
         files (snd (register_node env name ip node_port w)) =
           update_target_file (write_fails env) TARGETS_NODE_FILE name
             (Some (node_target name ip node_port))
             (update_target_file (write_fails env) TARGETS_MINIO_FILE name
                (Some (minio_target name ip)) (files w))"
  using assms by (simp add: register_node_def Let_def)

lemma filter_ip_map_same:
  assumes "\<And>n. n_ip (g n) = n_ip n"
  shows "filter (\<lambda>n. n_ip n = ip) (map (\<lambda>n. if n_ip n = ip then g n else n) xs) =
         map g (filter (\<lambda>n. n_ip n = ip) xs)"
  using assms by (induction xs) auto

lemma filter_ip_map_other:
  assumes "\<And>n. n_ip (g n) = n_ip n" and "ip' \<noteq> ip"
  shows "filter (\<lambda>n. n_ip n = ip') (map (\<lambda>n. if n_ip n = ip then g n else n) xs) =
         filter (\<lambda>n. n_ip n = ip') xs"
  using assms by (induction xs) auto

lemma merge_node_same_ip:
  "filter (\<lambda>n. n_ip n = ip) (nodes (merge_node ip name st ts L)) =
     (if ip \<in> set (map n_ip (nodes L))
      then map (\<lambda>n. n\<lparr>n_name := name, n_status := st, n_last_seen := ts\<rparr>)
             (filter (\<lambda>n. n_ip n = ip) (nodes L))
      else [\<lparr>n_id = next_id L, n_ip = ip, n_name = name, n_status = st, n_last_seen = ts\<rparr>])"
proof (cases "ip \<in> set (map n_ip (nodes L))")
  case True
  then show ?thesis
    by (simp add: merge_node_def
        filter_ip_map_same [where g = "\<lambda>n. n\<lparr>n_name := name, n_status := st, n_last_seen := ts\<rparr>"])
next
  case False
  then have "filter (\<lambda>n. n_ip n = ip) (nodes L) = []"
    by (auto simp: filter_empty_conv)
  with False show ?thesis by (simp add: merge_node_def)
qed

lemma merge_node_other_ip:
  assumes "ip' \<noteq> ip"
  shows "filter (\<lambda>n. n_ip n = ip') (nodes (merge_node ip name st ts L)) =
         filter (\<lambda>n. n_ip n = ip') (nodes L)"
  using assms
  by (simp add: merge_node_def
      filter_ip_map_other [where g = "\<lambda>n. n\<lparr>n_name := name, n_status := st, n_last_seen := ts\<rparr>"])

lemma merge_node_length:
  "length (nodes (merge_node ip name st ts L)) =
     (if ip \<in> set (map n_ip (nodes L)) then length (nodes L) else Suc (length (nodes L)))"
  by (simp add: merge_node_def)

lemma merge_node_has_ip: "ip \<in> set (map n_ip (nodes (merge_node ip name st ts L)))"
proof -
  have "filter (\<lambda>n. n_ip n = ip) (nodes (merge_node ip name st ts L)) \<noteq> []"
    by (auto simp: merge_node_same_ip filter_empty_conv)
  then show ?thesis by (auto simp: filter_empty_conv)
qed

lemma distinct_ip_filter:
  assumes "distinct (map n_ip xs)"
  shows "length (filter (\<lambda>n. n_ip n = ip) xs) \<le> 1"
  using assms
proof (induction xs)
  case Nil
  show ?case by simp
next
  case (Cons a xs)
  show ?case
  proof (cases "n_ip a = ip")
    case True
    with Cons.prems have "ip \<notin> set (map n_ip xs)" by simp
    then have "filter (\<lambda>n. n_ip n = ip) xs = []"
      by (auto simp: filter_empty_conv)
    with True show ?thesis by simp
  next
    case False
    with Cons show ?thesis by simp
  qed
qed

lemma node_status_values:
  "(node_status a b = ''active'') = (a \<and> b)" "(node_status a b = ''degraded'') = (\<not> (a \<and> b))"
  by (simp_all add: node_status_def)

lemma detach_delete_node_absent:
  assumes "name \<notin> set (map n_name (nodes L))"
  shows "detach_delete_node name L = (0, L)"
proof -
  have "filter (\<lambda>n. n_name n = name) (nodes L) = []"
    using assms by (auto simp: filter_empty_conv)
  moreover have "filter (\<lambda>n. n_name n \<noteq> name) (nodes L) = nodes L"
    using assms by (auto simp: filter_id_conv)
  ultimately show ?thesis by (simp add: detach_delete_node_def)
qed

lemma example_env_ledger_up:
  "get_db_session example_env = None" "session_run example_env 0 = None"
  "get_db_session probes_down_env = None" "session_run probes_down_env 0 = None"
  by (simp_all add: get_db_session_def session_run_def example_env_def probes_down_env_def)

text \<open>
  Node addresses stay distinct: the empty ledger has distinct addresses, and every request
  of the model keeps them so.
\<close>

lemma merge_node_distinct:
  assumes "distinct (map n_ip (nodes L))"
  shows "distinct (map n_ip (nodes (merge_node ip name st ts L)))"
proof (cases "ip \<in> set (map n_ip (nodes L))")
  case True
  have m: "map n_ip (map (\<lambda>n. if n_ip n = ip
                          then n\<lparr>n_name := name, n_status := st, n_last_seen := ts\<rparr>
                          else n) xs) = map n_ip xs" for xs
    by (induction xs) auto
  from True have "nodes (merge_node ip name st ts L) =
      map (\<lambda>n. if n_ip n = ip
                then n\<lparr>n_name := name, n_status := st, n_last_seen := ts\<rparr>
                else n) (nodes L)"
    by (simp add: merge_node_def)
  then have "map n_ip (nodes (merge_node ip name st ts L)) = map n_ip (nodes L)"
    by (simp only: m)
  with assms show ?thesis by simp
next
  case False
  with assms show ?thesis by (simp add: merge_node_def)
qed

lemma detach_delete_node_distinct:
  assumes "distinct (map n_ip (nodes L))"
  shows "distinct (map n_ip (nodes (snd (detach_delete_node name L))))"
  using assms by (simp add: detach_delete_node_def distinct_map_filter)

lemma ledger_distinct_ips_register_node:
  assumes "distinct (map n_ip (nodes (ledger w)))"
  shows "distinct (map n_ip (nodes (ledger (snd (register_node env name ip node_port w)))))"
  using assms
  by (simp add: register_node_def Let_def merge_node_distinct split: option.splits)

lemma ledger_distinct_ips_delete_node:
  assumes "distinct (map n_ip (nodes (ledger w)))"
  shows "distinct (map n_ip (nodes (ledger (snd (delete_node env name w)))))"
  using assms detach_delete_node_distinct [of "ledger w" name]
  by (auto simp add: delete_node_def Let_def split: option.splits prod.splits)

lemma update_cluster_ledger_nodes:
  "nodes (snd (update_cluster_ledger env name ips L)) = nodes L"
  by (simp add: update_cluster_ledger_def Let_def merge_cluster_def link_members_def
      split: option.splits)

lemma ledger_distinct_ips_create_cluster:
  assumes "distinct (map n_ip (nodes (ledger w)))"
  shows "distinct (map n_ip (nodes (ledger (snd (create_cluster env name aliases w)))))"
  using assms
  by (simp add: create_cluster_def Let_def update_cluster_ledger_nodes split: prod.splits)
     (metis snd_conv update_cluster_ledger_nodes)

lemma ledger_distinct_ips_empty: "distinct (map n_ip (nodes empty_ledger))"
  by (simp add: empty_ledger_def)

text \<open>Two successive upserts of one alias on a target file.\<close>

lemma update_target_file_other_path:
  "q \<noteq> p \<Longrightarrow> update_target_file ro p alias nt fs q = fs q"
  by (simp add: update_target_file_def split: sum.splits)

lemma update_target_file_written:
  assumes "load_targets (fs p) = Inr data"
    and "\<not> (\<exists>t \<in> set data. \<exists>e. alias_differs t alias = Inl e)"
    and "\<not> ro p"
  shows "update_target_file ro p alias nt fs p =
           Parsed (JArr (filter (\<lambda>t. alias_differs t alias = Inr True) data @ appended nt))"
  using assms by (simp add: update_target_file_def drop_alias_filter)

lemma upsert_twice:
  assumes "load_targets (fs p) = Inr data"
    and "\<not> (\<exists>t \<in> set data. \<exists>e. alias_differs t alias = Inl e)"
    and "\<not> ro1 p" and "\<not> ro2 p"
    and "alias_differs t1 alias = Inr False" and "alias_differs t2 alias = Inr False"
    and "truthy t1" and "truthy t2"
    and "g p = update_target_file ro1 p alias (Some t1) fs p"
  shows "update_target_file ro2 p alias (Some t2) g p =
           Parsed (JArr (filter (\<lambda>t. alias_differs t alias = Inr True) data @ [t2]))"
proof -
  let ?kept = "filter (\<lambda>t. alias_differs t alias = Inr True) data"
  have g: "g p = Parsed (JArr (?kept @ [t1]))"
    using assms(1,2,3,7,9) by (simp add: update_target_file_written appended_def)
  then have l: "load_targets (g p) = Inr (?kept @ [t1])"
    by simp
  have nr: "\<not> (\<exists>t \<in> set (?kept @ [t1]). \<exists>e. alias_differs t alias = Inl e)"
    using assms(5) by auto
  have "filter (\<lambda>t. alias_differs t alias = Inr True) (?kept @ [t1]) = ?kept"
    using assms(5) by simp
  with update_target_file_written [where fs = g and p = p and ro = ro2 and nt = "Some t2",
      OF l nr assms(4)] assms(8)
  show ?thesis by (simp add: appended_def)
qed

lemma target_alias:
  "alias_differs (minio_target name ip) name = Inr False"
  "alias_differs (node_target name ip port) name = Inr False"
  "truthy (minio_target name ip)" "truthy (node_target name ip port)"
  by (simp_all add: minio_target_def node_target_def dict_get_def)

lemma target_files_differ: "TARGETS_MINIO_FILE \<noteq> TARGETS_NODE_FILE"
  by (simp add: TARGETS_MINIO_FILE_def TARGETS_NODE_FILE_def)

lemma minio_target_inj: "minio_target name ip1 = minio_target name ip2 \<Longrightarrow> ip1 = ip2"
  by (simp add: minio_target_def)


text \<open>The ledger step of cluster formation, when it runs and when it fails.\<close>

lemma update_cluster_ledger_clusters:
  assumes "get_db_session env = None" and "session_run env 0 = None"
  shows "clusters (snd (update_cluster_ledger env name ips L)) =
           clusters (merge_cluster name (timestamp env) L)"
  using assms
  by (simp add: update_cluster_ledger_def Let_def link_members_def split: option.splits)

lemma update_cluster_ledger_failed:
  assumes "get_db_session env \<noteq> None \<or> session_run env 0 \<noteq> None"
  shows "snd (update_cluster_ledger env name ips L) = L"
  using assms by (auto simp add: update_cluster_ledger_def split: option.splits)

lemma example_join_accepted:
  "returncode (shell example_env (replicate_cmd (parse_aliases ''a,b''))) = 0 \<or>
   contains (lower (stderr (shell example_env (replicate_cmd (parse_aliases ''a,b'')))))
     ''already''"
  "returncode (shell ledger_down_env (replicate_cmd (parse_aliases ''a,b''))) = 0 \<or>
   contains (lower (stderr (shell ledger_down_env (replicate_cmd (parse_aliases ''a,b'')))))
     ''already''"
  by (simp_all add: example_env_def ledger_down_env_def)

lemma example_resolve:
  "resolve_aliases example_env [''a'', ''b''] = [(''a'', ''10.0.0.1'')]"
  by (simp add: resolve_aliases_def example_env_def Let_def strip_def isspace_def split_def
      resolve_line_def dict_get_def ip_part_def)

lemma resolve_line_db [simp]: "resolve_line (env\<lparr>db := d\<rparr>) = resolve_line env"
  by (intro ext) (simp add: resolve_line_def)

lemma ledger_down_resolve:
  "resolve_aliases ledger_down_env = resolve_aliases example_env"
  by (intro ext) (simp add: resolve_aliases_def ledger_down_env_def Let_def)

section \<open>Forming a cluster: argument validation\<close>

text \<open>
  C5. A cluster-formation request whose alias list has fewer than two non-empty, trimmed
  aliases is answered with a 400 and leaves the whole world as it was: no command is run
  (the record of external calls is unchanged), the alias registry is not listed and the
  ledger is not touched.
\<close>

theorem create_cluster_too_few_aliases:
  assumes "length (parse_aliases aliases) < 2"
  shows "create_cluster env name aliases w =
           (Inl (HTTPException 400 ''Cluster requires at least 2 aliases.''), w)"
  using assms by (simp add: create_cluster_def)

theorem create_cluster_too_few_aliases_witness:
  "length (parse_aliases '' a , ,'') < 2 \<and>
   create_cluster example_env ''prod'' '' a , ,'' empty_world =
     (Inl (HTTPException 400 ''Cluster requires at least 2 aliases.''), empty_world)"
proof -
  have h: "length (parse_aliases '' a , ,'') < 2"
    by (simp add: parse_aliases_def split_def strip_def isspace_def)
  show ?thesis
    using h create_cluster_too_few_aliases [OF h, of example_env "''prod''" empty_world]
    by simp
qed


section \<open>Forming a cluster: the join command\<close>

text \<open>
  C6. When the join command over the whole alias list returns a non-zero code: if its
  lower-cased error output contains \<open>already\<close>, the request goes on exactly as if the join
  had returned 0, and answers with the success response; otherwise the request stops with a
  500 carrying the error output, after the reset commands and the join command and before
  the alias listing and the ledger.
\<close>

theorem create_cluster_join_failure:
  assumes "2 \<le> length (parse_aliases aliases)"
    and "res = shell env (replicate_cmd (parse_aliases aliases))"
    and "returncode res \<noteq> 0"
  shows "(contains (lower (stderr res)) ''already'' \<longrightarrow>
            (\<exists>r. fst (create_cluster env name aliases w) = Inr r) \<and>
            create_cluster env name aliases w =
              create_cluster
                (env\<lparr>shell := (shell env)
                    (replicate_cmd (parse_aliases aliases) := res\<lparr>returncode := 0\<rparr>)\<rparr>)
                name aliases w) \<and>
         (\<not> contains (lower (stderr res)) ''already'' \<longrightarrow>
            create_cluster env name aliases w =
              (Inl (HTTPException 500 (''Cluster formation failed: '' @ stderr res)),
               w\<lparr>calls := calls w @
                  map (\<lambda>a. Subprocess (reset_cmd a)) (parse_aliases aliases) @
                  [Subprocess (replicate_cmd (parse_aliases aliases))]\<rparr>))"
proof (intro conjI impI)
  let ?al = "parse_aliases aliases"
  let ?env' = "env\<lparr>shell := (shell env) (replicate_cmd ?al := res\<lparr>returncode := 0\<rparr>)\<rparr>"
  assume a: "contains (lower (stderr res)) ''already''"
  have l: "create_cluster env name aliases w =
           (Inr (success_response name ?al (resolve_aliases env ?al)),
            w\<lparr>calls := calls w @ map (\<lambda>a. Subprocess (reset_cmd a)) ?al @
                          [Subprocess (replicate_cmd ?al),
                           Subprocess alias_list_cmd, LedgerSession],
              ledger := snd (update_cluster_ledger env name
                               (map snd (resolve_aliases env ?al)) (ledger w))\<rparr>)"
    using assms a by (intro create_cluster_accepted) simp_all
  show "\<exists>r. fst (create_cluster env name aliases w) = Inr r"
    by (simp add: l)
  have same: "resolve_aliases ?env' ?al = resolve_aliases env ?al"
    by (rule resolve_aliases_shell) (simp add: replicate_cmd_not_listing [symmetric])
  have r: "create_cluster ?env' name aliases w =
           (Inr (success_response name ?al (resolve_aliases ?env' ?al)),
            w\<lparr>calls := calls w @ map (\<lambda>a. Subprocess (reset_cmd a)) ?al @
                          [Subprocess (replicate_cmd ?al),
                           Subprocess alias_list_cmd, LedgerSession],
              ledger := snd (update_cluster_ledger ?env' name
                               (map snd (resolve_aliases ?env' ?al)) (ledger w))\<rparr>)"
    using assms by (intro create_cluster_accepted) simp_all
  show "create_cluster env name aliases w = create_cluster ?env' name aliases w"
    by (simp only: l r same update_cluster_ledger_shell)
next
  assume "\<not> contains (lower (stderr res)) ''already''"
  then show "create_cluster env name aliases w =
      (Inl (HTTPException 500 (''Cluster formation failed: '' @ stderr res)),
       w\<lparr>calls := calls w @ map (\<lambda>a. Subprocess (reset_cmd a)) (parse_aliases aliases) @
                           [Subprocess (replicate_cmd (parse_aliases aliases))]\<rparr>)"
    using assms by (simp add: create_cluster_def Let_def)
qed

theorem create_cluster_join_failure_witness:
  "(\<exists>r. fst (create_cluster (join_fails_env 1 ''Site ALREADY configured'') ''prod'' ''a,b''
              empty_world) = Inr r) \<and>
   create_cluster (join_fails_env 1 ''connection refused'') ''prod'' ''a,b'' empty_world =
     (Inl (HTTPException 500 ''Cluster formation failed: connection refused''),
      empty_world\<lparr>calls := [Subprocess ''mc admin replicate rm --all --force a'',
                            Subprocess ''mc admin replicate rm --all --force b'',
                            Subprocess ''mc admin replicate add a b'']\<rparr>)"
proof -
  let ?yes = "join_fails_env 1 ''Site ALREADY configured''"
  let ?no = "join_fails_env 1 ''connection refused''"
  let ?cmd = "replicate_cmd (parse_aliases ''a,b'')"
  have len: "2 \<le> length (parse_aliases ''a,b'')"
    by (simp add: parse_aliases_a_b)
  have rc_yes: "returncode (shell ?yes ?cmd) \<noteq> 0" and rc_no: "returncode (shell ?no ?cmd) \<noteq> 0"
    by (simp_all add: join_fails_env_shell)
  have "contains (lower ''Site ALREADY configured'') ''already''"
    by code_simp
  then have yes: "contains (lower (stderr (shell ?yes ?cmd))) ''already''"
    by (simp add: join_fails_env_shell)
  have "\<not> contains (lower ''connection refused'') ''already''"
    by code_simp
  then have no: "\<not> contains (lower (stderr (shell ?no ?cmd))) ''already''"
    by (simp add: join_fails_env_shell)
  have a: "\<exists>r. fst (create_cluster ?yes ''prod'' ''a,b'' empty_world) = Inr r"
    using create_cluster_join_failure [OF len refl rc_yes, of "''prod''" empty_world] yes
    by blast
  have "create_cluster ?no ''prod'' ''a,b'' empty_world =
          (Inl (HTTPException 500 (''Cluster formation failed: '' @ stderr (shell ?no ?cmd))),
           empty_world\<lparr>calls := calls empty_world @
              map (\<lambda>a. Subprocess (reset_cmd a)) (parse_aliases ''a,b'') @ [Subprocess ?cmd]\<rparr>)"
    using create_cluster_join_failure [OF len refl rc_no, of "''prod''" empty_world] no
    by blast
  then have b: "create_cluster ?no ''prod'' ''a,b'' empty_world =
     (Inl (HTTPException 500 ''Cluster formation failed: connection refused''),
      empty_world\<lparr>calls := [Subprocess ''mc admin replicate rm --all --force a'',
                            Subprocess ''mc admin replicate rm --all --force b'',
                            Subprocess ''mc admin replicate add a b'']\<rparr>)"
    by (simp add: join_fails_env_shell) (simp add: parse_aliases_a_b reset_cmd_def replicate_cmd_def empty_world_def)
  show ?thesis using a b by (rule conjI)
qed

section \<open>Target files: what an update keeps\<close>

text \<open>
  C7. For an upsert (\<open>new_target\<close> given) and for a removal (\<open>new_target\<close> absent) on a
  target file whose entries could be read: either nothing is written and the file stays as it
  was (the file cannot be written, or an entry has no readable labels and the comprehension
  raises), or the file is written back with exactly the old entries whose alias label differs
  from the given alias, unchanged and in their order, foreign entries included, followed by
  the new entry if there is one. Only entries labelled with the given alias disappear.
\<close>

theorem update_target_file_frame:
  assumes "load_targets (fs p) = Inr data"
  shows "update_target_file ro p alias new_target fs =
           (if ro p \<or> (\<exists>t \<in> set data. \<exists>e. alias_differs t alias = Inl e) then fs
            else fs(p := Parsed (JArr (filter (\<lambda>t. alias_differs t alias = Inr True) data @
                                        appended new_target))))"
  using assms by (simp add: update_target_file_def drop_alias_filter)

theorem update_target_file_frame_witness:
  "load_targets (example_files TARGETS_MINIO_FILE) = Inr example_targets \<and>
   update_target_file (\<lambda>p. False) TARGETS_MINIO_FILE ''X''
       (Some (minio_target ''X'' ''10.0.0.7'')) example_files TARGETS_MINIO_FILE =
     Parsed (JArr [JObj [(''targets'', JArr [JStr ''203.0.113.9:9999''])],
                   minio_target ''Y'' ''10.0.0.2'',
                   minio_target ''X'' ''10.0.0.7'']) \<and>
   update_target_file (\<lambda>p. False) TARGETS_MINIO_FILE ''X'' None example_files
       TARGETS_MINIO_FILE =
     Parsed (JArr [JObj [(''targets'', JArr [JStr ''203.0.113.9:9999''])],
                   minio_target ''Y'' ''10.0.0.2''])"
proof -
  have a: "update_target_file (\<lambda>p. False) TARGETS_MINIO_FILE ''X''
       (Some (minio_target ''X'' ''10.0.0.7'')) example_files TARGETS_MINIO_FILE =
     Parsed (JArr [JObj [(''targets'', JArr [JStr ''203.0.113.9:9999''])],
                   minio_target ''Y'' ''10.0.0.2'',
                   minio_target ''X'' ''10.0.0.7''])"
    using update_target_file_frame [of example_files TARGETS_MINIO_FILE example_targets
        "\<lambda>p. False" "''X''" "Some (minio_target ''X'' ''10.0.0.7'')", OF example_files_load] example_targets_no_raise
    by (simp add: example_targets_without_X appended_def) (simp add: minio_target_def)
  have b: "update_target_file (\<lambda>p. False) TARGETS_MINIO_FILE ''X'' None example_files
       TARGETS_MINIO_FILE =
     Parsed (JArr [JObj [(''targets'', JArr [JStr ''203.0.113.9:9999''])],
                   minio_target ''Y'' ''10.0.0.2''])"
    using update_target_file_frame [of example_files TARGETS_MINIO_FILE example_targets
        "\<lambda>p. False" "''X''" None, OF example_files_load] example_targets_no_raise
    by (simp add: example_targets_without_X appended_def)
  show ?thesis using example_files_load a b by simp
qed

section \<open>Target files: a store that cannot be used\<close>




section \<open>Registering a node: the stored status\<close>

text \<open>
  C4. Whenever the ledger answers, registration succeeds whatever the probes say, and every
  record it leaves for the address carries the status computed from the two probes (ports
  9001 and 9003): \<open>active\<close> exactly when both succeed, \<open>degraded\<close> exactly when at
  least one fails. Failed probes never abort the registration and no other status is written.
\<close>

theorem register_node_status:
  assumes "get_db_session env = None" and "session_run env 0 = None"
    and "a = check_minio_health env ip 9001" and "b = check_minio_health env ip 9003"
    and "w' = snd (register_node env name ip node_port w)"
  shows "(\<exists>r. fst (register_node env name ip node_port w) = Inr r) \<and>
         n_status ` {n \<in> set (nodes (ledger w')). n_ip n = ip} = {node_status a b} \<and>
         (node_status a b = ''active'') = (a \<and> b) \<and>
         (node_status a b = ''degraded'') = (\<not> (a \<and> b))"
proof -
  let ?L = "merge_node ip name (node_status a b) (timestamp env) (ledger w)"
  have L: "ledger w' = ?L"
    using assms register_node_reached [of env name ip node_port w] by simp
  have "set (map n_status (filter (\<lambda>n. n_ip n = ip) (nodes ?L))) = {node_status a b}"
  proof (cases "ip \<in> set (map n_ip (nodes (ledger w)))")
    case True
    then have "filter (\<lambda>n. n_ip n = ip) (nodes (ledger w)) \<noteq> []"
      by (auto simp: filter_empty_conv)
    with True show ?thesis
      by (cases "filter (\<lambda>n. n_ip n = ip) (nodes (ledger w))")
         (auto simp: merge_node_same_ip o_def)
  next
    case False
    then show ?thesis by (simp add: merge_node_same_ip)
  qed
  then have "n_status ` {n \<in> set (nodes (ledger w')). n_ip n = ip} = {node_status a b}"
    by (simp add: L)
  moreover have "\<exists>r. fst (register_node env name ip node_port w) = Inr r"
    using assms register_node_reached [of env name ip node_port w] by simp
  ultimately show ?thesis by (simp add: node_status_values)
qed

theorem register_node_status_witness:
  "get_db_session probes_down_env = None \<and> session_run probes_down_env 0 = None \<and>
   \<not> check_minio_health probes_down_env ''10.0.0.1'' 9001 \<and>
   \<not> check_minio_health probes_down_env ''10.0.0.1'' 9003 \<and>
   (\<exists>r. fst (register_node probes_down_env ''A'' ''10.0.0.1'' 9100 empty_world) = Inr r) \<and>
   n_status ` {n \<in> set (nodes (ledger (snd (register_node probes_down_env ''A'' ''10.0.0.1''
                                               9100 empty_world)))). n_ip n = ''10.0.0.1''} =
     {''degraded''}"
proof -
  have a: "check_minio_health probes_down_env ''10.0.0.1'' 9001 = False"
    and b: "check_minio_health probes_down_env ''10.0.0.1'' 9003 = False"
    by (simp_all add: check_minio_health_def probes_down_env_def)
  show ?thesis
    using register_node_status [OF example_env_ledger_up(3,4) a [symmetric] b [symmetric] refl,
        of "''A''" 9100 empty_world]
      example_env_ledger_up(3,4) a b
    by (simp add: node_status_def)
qed

section \<open>Removing a node that is not registered\<close>

text \<open>
  C8. Removing a name that no node of the ledger carries is answered with an error and leaves
  both target files (every path of the file store) and the ledger as they were; when the
  ledger answers, the error is the 404 \<open>Node 'name' not found in registry.\<close>
\<close>

theorem delete_node_not_found:
  assumes "name \<notin> set (map n_name (nodes (ledger w)))"
  shows "(\<exists>e. fst (delete_node env name w) = Inl e) \<and>
         files (snd (delete_node env name w)) = files w \<and>
         ledger (snd (delete_node env name w)) = ledger w \<and>
         (get_db_session env = None \<and> session_run env 0 = None \<longrightarrow>
            fst (delete_node env name w) =
              Inl (HTTPException 404
                    (''Node '' @ [CHR 0x27] @ name @ [CHR 0x27] @ '' not found in registry.'')))"
  using assms
  by (simp add: delete_node_def Let_def detach_delete_node_absent split: option.splits)


theorem delete_node_not_found_witness:
  "''ghost'' \<notin> set (map n_name (nodes (ledger example_world))) \<and>
   fst (delete_node example_env ''ghost'' example_world) =
     Inl (HTTPException 404
           (''Node '' @ [CHR 0x27] @ ''ghost'' @ [CHR 0x27] @ '' not found in registry.'')) \<and>
   files (snd (delete_node example_env ''ghost'' example_world)) = files example_world \<and>
   ledger (snd (delete_node example_env ''ghost'' example_world)) = ledger example_world"
proof -
  have h: "''ghost'' \<notin> set (map n_name (nodes (ledger example_world)))"
    by (simp add: example_world_def prod_world_def)
  show ?thesis
    using delete_node_not_found [OF h, of example_env] example_env_ledger_up(1,2) h
    by simp
qed

section \<open>Registering the same address twice\<close>

text \<open>
  C3. In a ledger whose node records have distinct addresses, two successive registrations
  of one address (under any names) leave exactly one record for that address: the second
  registration rewrites the name, the status and \<open>last_seen\<close> of the record the first one
  left, keeping its identity, and the number of node records does not grow.
\<close>

theorem register_node_same_address_twice:
  assumes "get_db_session env1 = None" and "session_run env1 0 = None"
    and "get_db_session env2 = None" and "session_run env2 0 = None"
    and "distinct (map n_ip (nodes (ledger w)))"
    and "w1 = snd (register_node env1 name1 ip port1 w)"
    and "w2 = snd (register_node env2 name2 ip port2 w1)"
  shows "\<exists>n1. filter (\<lambda>n. n_ip n = ip) (nodes (ledger w1)) = [n1] \<and>
              filter (\<lambda>n. n_ip n = ip) (nodes (ledger w2)) =
                [n1\<lparr>n_name := name2,
                    n_status := node_status (check_minio_health env2 ip 9001)
                                  (check_minio_health env2 ip 9003),
                    n_last_seen := timestamp env2\<rparr>] \<and>
              length (nodes (ledger w2)) = length (nodes (ledger w1))"
proof -
  let ?st1 = "node_status (check_minio_health env1 ip 9001) (check_minio_health env1 ip 9003)"
  let ?st2 = "node_status (check_minio_health env2 ip 9001) (check_minio_health env2 ip 9003)"
  have L1: "ledger w1 = merge_node ip name1 ?st1 (timestamp env1) (ledger w)"
    using assms(1,2,6) register_node_reached [of env1 name1 ip port1 w] by simp
  have L2: "ledger w2 = merge_node ip name2 ?st2 (timestamp env2) (ledger w1)"
    using assms(3,4,7) register_node_reached [of env2 name2 ip port2 w1] by simp
  have le: "length (filter (\<lambda>n. n_ip n = ip) (nodes (ledger w))) \<le> 1"
    using assms(5) by (rule distinct_ip_filter)
  have "\<exists>n1. filter (\<lambda>n. n_ip n = ip) (nodes (ledger w1)) = [n1]"
  proof (cases "ip \<in> set (map n_ip (nodes (ledger w)))")
    case True
    then have "filter (\<lambda>n. n_ip n = ip) (nodes (ledger w)) \<noteq> []"
      by (auto simp: filter_empty_conv)
    with le obtain n0 where "filter (\<lambda>n. n_ip n = ip) (nodes (ledger w)) = [n0]"
      by (cases "filter (\<lambda>n. n_ip n = ip) (nodes (ledger w))") auto
    with True show ?thesis by (simp add: L1 merge_node_same_ip)
  next
    case False
    then show ?thesis by (simp add: L1 merge_node_same_ip)
  qed
  then obtain n1 where n1: "filter (\<lambda>n. n_ip n = ip) (nodes (ledger w1)) = [n1]" ..
  have has: "ip \<in> set (map n_ip (nodes (ledger w1)))"
    unfolding L1 by (rule merge_node_has_ip)
  have "filter (\<lambda>n. n_ip n = ip) (nodes (ledger w2)) =
          [n1\<lparr>n_name := name2, n_status := ?st2, n_last_seen := timestamp env2\<rparr>]"
    using has n1 by (simp add: L2 merge_node_same_ip)
  moreover have "length (nodes (ledger w2)) = length (nodes (ledger w1))"
    using has by (simp add: L2 merge_node_length)
  ultimately show ?thesis using n1 by blast
qed


theorem register_node_same_address_twice_witness:
  "distinct (map n_ip (nodes (ledger empty_world))) \<and>
   (\<exists>n1. filter (\<lambda>n. n_ip n = ''10.0.0.1'')
            (nodes (ledger (snd (register_node example_env ''A'' ''10.0.0.1'' 9100
                                   empty_world)))) = [n1] \<and>
          filter (\<lambda>n. n_ip n = ''10.0.0.1'')
            (nodes (ledger (snd (register_node probes_down_env ''B'' ''10.0.0.1'' 9100
               (snd (register_node example_env ''A'' ''10.0.0.1'' 9100 empty_world)))))) =
            [n1\<lparr>n_name := ''B'', n_status := ''degraded'', n_last_seen := 300\<rparr>])"
proof -
  have h: "distinct (map n_ip (nodes (ledger empty_world)))"
    by (simp add: empty_world_def empty_ledger_def)
  have a: "check_minio_health probes_down_env ''10.0.0.1'' 9001 = False"
    and b: "check_minio_health probes_down_env ''10.0.0.1'' 9003 = False"
    and t: "timestamp probes_down_env = 300"
    by (simp_all add: check_minio_health_def probes_down_env_def)
  show ?thesis
    using register_node_same_address_twice
      [where ?name1.0 = "''A''" and ip = "''10.0.0.1''" and ?port1.0 = 9100
         and ?name2.0 = "''B''" and ?port2.0 = 9100,
        OF example_env_ledger_up(1,2) example_env_ledger_up(3,4) h refl refl] h
    by (auto simp add: a b t node_status_def)
qed

section \<open>Registering one name at two addresses\<close>

text \<open>
  C10. Two successive registrations of one name at two different addresses, in a ledger with
  distinct node addresses and with target files that can be read and written: the ledger ends
  with one record for each address, both under that name and different from each other,
  while each target file ends with exactly one entry labelled with the name, the one of the
  second registration; the storage-service targets of the first address are no longer in the
  file.
\<close>

theorem register_same_name_two_addresses:
  assumes "get_db_session env1 = None" and "session_run env1 0 = None"
    and "get_db_session env2 = None" and "session_run env2 0 = None"
    and "ip1 \<noteq> ip2"
    and "distinct (map n_ip (nodes (ledger w)))"
    and "\<not> write_fails env1 TARGETS_MINIO_FILE" and "\<not> write_fails env1 TARGETS_NODE_FILE"
    and "\<not> write_fails env2 TARGETS_MINIO_FILE" and "\<not> write_fails env2 TARGETS_NODE_FILE"
    and "load_targets (files w TARGETS_MINIO_FILE) = Inr dm"
    and "\<not> (\<exists>t \<in> set dm. \<exists>e. alias_differs t name = Inl e)"
    and "load_targets (files w TARGETS_NODE_FILE) = Inr dn"
    and "\<not> (\<exists>t \<in> set dn. \<exists>e. alias_differs t name = Inl e)"
    and "w1 = snd (register_node env1 name ip1 port1 w)"
    and "w2 = snd (register_node env2 name ip2 port2 w1)"
  shows "(\<exists>n1 n2. filter (\<lambda>n. n_ip n = ip1) (nodes (ledger w2)) = [n1] \<and>
                  filter (\<lambda>n. n_ip n = ip2) (nodes (ledger w2)) = [n2] \<and>
                  n_name n1 = name \<and> n_name n2 = name \<and> n1 \<noteq> n2) \<and>
         (\<exists>dm'. files w2 TARGETS_MINIO_FILE = Parsed (JArr dm') \<and>
                 filter (\<lambda>t. alias_differs t name = Inr False) dm' = [minio_target name ip2] \<and>
                 minio_target name ip1 \<notin> set dm') \<and>
         (\<exists>dn'. files w2 TARGETS_NODE_FILE = Parsed (JArr dn') \<and>
                 filter (\<lambda>t. alias_differs t name = Inr False) dn' =
                   [node_target name ip2 port2])"
proof -
  let ?M = TARGETS_MINIO_FILE and ?N = TARGETS_NODE_FILE
  let ?st1 = "node_status (check_minio_health env1 ip1 9001) (check_minio_health env1 ip1 9003)"
  let ?st2 = "node_status (check_minio_health env2 ip2 9001) (check_minio_health env2 ip2 9003)"
  note r1 = register_node_reached [OF assms(1,2), of name ip1 port1 w]
  note r2 = register_node_reached [OF assms(3,4), of name ip2 port2 w1]
  have L1: "ledger w1 = merge_node ip1 name ?st1 (timestamp env1) (ledger w)"
    using r1 assms(15) by simp
  have L2: "ledger w2 = merge_node ip2 name ?st2 (timestamp env2) (ledger w1)"
    using r2 assms(16) by simp
  have F1: "files w1 = update_target_file (write_fails env1) ?N name
                (Some (node_target name ip1 port1))
                (update_target_file (write_fails env1) ?M name
                   (Some (minio_target name ip1)) (files w))"
    using r1 assms(15) by simp
  have F2: "files w2 = update_target_file (write_fails env2) ?N name
                (Some (node_target name ip2 port2))
                (update_target_file (write_fails env2) ?M name
                   (Some (minio_target name ip2)) (files w1))"
    using r2 assms(16) by simp
  \<comment> \<open>the ledger\<close>
  have d1: "distinct (map n_ip (nodes (ledger w1)))"
    unfolding L1 using assms(6) by (rule merge_node_distinct)
  have "length (filter (\<lambda>n. n_ip n = ip1) (nodes (ledger w1))) \<le> 1"
    using d1 by (rule distinct_ip_filter)
  moreover have "filter (\<lambda>n. n_ip n = ip1) (nodes (ledger w1)) \<noteq> []"
    using merge_node_has_ip [of ip1 name ?st1 "timestamp env1" "ledger w"]
    by (auto simp: L1 filter_empty_conv)
  ultimately obtain n1 where n1: "filter (\<lambda>n. n_ip n = ip1) (nodes (ledger w1)) = [n1]"
    by (cases "filter (\<lambda>n. n_ip n = ip1) (nodes (ledger w1))") auto
  have "n1 \<in> set (filter (\<lambda>n. n_ip n = ip1) (nodes (ledger w1)))"
    by (simp add: n1)
  then have n1_ip: "n_ip n1 = ip1" by simp
  have "\<forall>n \<in> set (filter (\<lambda>n. n_ip n = ip1) (nodes (ledger w1))). n_name n = name"
    unfolding L1 by (auto simp: merge_node_same_ip)
  then have n1_name: "n_name n1 = name" by (simp add: n1)
  have a: "filter (\<lambda>n. n_ip n = ip1) (nodes (ledger w2)) = [n1]"
    using assms(5) n1 by (simp add: L2 merge_node_other_ip)
  have d2: "distinct (map n_ip (nodes (ledger w2)))"
    unfolding L2 using d1 by (rule merge_node_distinct)
  have "length (filter (\<lambda>n. n_ip n = ip2) (nodes (ledger w2))) \<le> 1"
    using d2 by (rule distinct_ip_filter)
  moreover have "filter (\<lambda>n. n_ip n = ip2) (nodes (ledger w2)) \<noteq> []"
    using merge_node_has_ip [of ip2 name ?st2 "timestamp env2" "ledger w1"]
    by (auto simp: L2 filter_empty_conv)
  ultimately obtain n2 where n2: "filter (\<lambda>n. n_ip n = ip2) (nodes (ledger w2)) = [n2]"
    by (cases "filter (\<lambda>n. n_ip n = ip2) (nodes (ledger w2))") auto
  have "n2 \<in> set (filter (\<lambda>n. n_ip n = ip2) (nodes (ledger w2)))"
    by (simp add: n2)
  then have n2_ip: "n_ip n2 = ip2" by simp
  have "\<forall>n \<in> set (filter (\<lambda>n. n_ip n = ip2) (nodes (ledger w2))). n_name n = name"
    unfolding L2 by (auto simp: merge_node_same_ip)
  then have n2_name: "n_name n2 = name" by (simp add: n2)
  have ne: "n1 \<noteq> n2"
    using n1_ip n2_ip assms(5) by auto
  have ledger_part:
    "\<exists>n1 n2. filter (\<lambda>n. n_ip n = ip1) (nodes (ledger w2)) = [n1] \<and>
             filter (\<lambda>n. n_ip n = ip2) (nodes (ledger w2)) = [n2] \<and>
             n_name n1 = name \<and> n_name n2 = name \<and> n1 \<noteq> n2"
    using a n2 n1_name n2_name ne by blast
  \<comment> \<open>the storage-service targets\<close>
  let ?keptM = "filter (\<lambda>t. alias_differs t name = Inr True) dm"
  have M1: "files w1 ?M = update_target_file (write_fails env1) ?M name
              (Some (minio_target name ip1)) (files w) ?M"
    by (simp add: F1 update_target_file_other_path target_files_differ)
  have "files w2 ?M = update_target_file (write_fails env2) ?M name
              (Some (minio_target name ip2)) (files w1) ?M"
    by (simp add: F2 update_target_file_other_path target_files_differ)
  also have "\<dots> = Parsed (JArr (?keptM @ [minio_target name ip2]))"
    using assms(11,12,7,9) M1
    by (intro upsert_twice [where ?t1.0 = "minio_target name ip1" and fs = "files w"
          and ?ro1.0 = "write_fails env1"]) (simp_all add: target_alias)
  finally have M2: "files w2 ?M = Parsed (JArr (?keptM @ [minio_target name ip2]))" .
  have M_only: "filter (\<lambda>t. alias_differs t name = Inr False) (?keptM @ [minio_target name ip2]) =
      [minio_target name ip2]"
    by (simp add: target_alias filter_empty_conv)
  have M_gone: "minio_target name ip1 \<notin> set (?keptM @ [minio_target name ip2])"
    using assms(5) minio_target_inj [of name ip1 ip2] by (auto simp: target_alias)
  have minio_part:
    "\<exists>dm'. files w2 ?M = Parsed (JArr dm') \<and>
            filter (\<lambda>t. alias_differs t name = Inr False) dm' = [minio_target name ip2] \<and>
            minio_target name ip1 \<notin> set dm'"
    using M2 M_only M_gone by blast
  \<comment> \<open>the host-metrics targets\<close>
  let ?keptN = "filter (\<lambda>t. alias_differs t name = Inr True) dn"
  let ?g1 = "update_target_file (write_fails env1) ?M name (Some (minio_target name ip1)) (files w)"
  let ?g2 = "update_target_file (write_fails env2) ?M name (Some (minio_target name ip2)) (files w1)"
  have g1N: "?g1 ?N = files w ?N"
    by (simp add: update_target_file_other_path target_files_differ [symmetric])
  have g2N: "?g2 ?N = files w1 ?N"
    by (simp add: update_target_file_other_path target_files_differ [symmetric])
  have N1: "?g2 ?N = update_target_file (write_fails env1) ?N name
              (Some (node_target name ip1 port1)) ?g1 ?N"
    by (simp add: F1 update_target_file_other_path target_files_differ [symmetric])
  have "files w2 ?N = update_target_file (write_fails env2) ?N name
              (Some (node_target name ip2 port2)) ?g2 ?N"
    by (simp add: F2)
  also have "\<dots> = Parsed (JArr (?keptN @ [node_target name ip2 port2]))"
    using assms(13,14,8,10) N1 g1N
    by (intro upsert_twice [where ?t1.0 = "node_target name ip1 port1" and fs = ?g1
          and ?ro1.0 = "write_fails env1"]) (simp_all add: target_alias)
  finally have N2: "files w2 ?N = Parsed (JArr (?keptN @ [node_target name ip2 port2]))" .
  have N_only: "filter (\<lambda>t. alias_differs t name = Inr False) (?keptN @ [node_target name ip2 port2]) =
      [node_target name ip2 port2]"
    by (simp add: target_alias filter_empty_conv)
  have node_part:
    "\<exists>dn'. files w2 ?N = Parsed (JArr dn') \<and>
            filter (\<lambda>t. alias_differs t name = Inr False) dn' = [node_target name ip2 port2]"
    using N2 N_only by blast
  show ?thesis using ledger_part minio_part node_part by (intro conjI)
qed


theorem register_same_name_two_addresses_witness:
  "''10.0.0.5'' \<noteq> ''10.0.0.6'' \<and>
   distinct (map n_ip (nodes (ledger example_world))) \<and>
   load_targets (files example_world TARGETS_MINIO_FILE) = Inr example_targets \<and>
   load_targets (files example_world TARGETS_NODE_FILE) = Inr [] \<and>
   (\<exists>n1 n2.
      filter (\<lambda>n. n_ip n = ''10.0.0.5'')
        (nodes (ledger (snd (register_node example_env ''X'' ''10.0.0.6'' 9100
           (snd (register_node example_env ''X'' ''10.0.0.5'' 9100 example_world)))))) = [n1] \<and>
      filter (\<lambda>n. n_ip n = ''10.0.0.6'')
        (nodes (ledger (snd (register_node example_env ''X'' ''10.0.0.6'' 9100
           (snd (register_node example_env ''X'' ''10.0.0.5'' 9100 example_world)))))) = [n2] \<and>
      n_name n1 = ''X'' \<and> n_name n2 = ''X'' \<and> n1 \<noteq> n2) \<and>
   (\<exists>dm'. files (snd (register_node example_env ''X'' ''10.0.0.6'' 9100
              (snd (register_node example_env ''X'' ''10.0.0.5'' 9100 example_world))))
              TARGETS_MINIO_FILE = Parsed (JArr dm') \<and>
           filter (\<lambda>t. alias_differs t ''X'' = Inr False) dm' =
             [minio_target ''X'' ''10.0.0.6''] \<and>
           minio_target ''X'' ''10.0.0.5'' \<notin> set dm')"
proof -
  have ne: "''10.0.0.5'' \<noteq> ''10.0.0.6''"
    by simp
  have d: "distinct (map n_ip (nodes (ledger example_world)))"
    by (simp add: example_world_def prod_world_def)
  have wr: "\<not> write_fails example_env TARGETS_MINIO_FILE"
    "\<not> write_fails example_env TARGETS_NODE_FILE"
    by (simp_all add: example_env_def)
  have lm: "load_targets (files example_world TARGETS_MINIO_FILE) = Inr example_targets"
    by (simp add: example_world_def example_files_load)
  have ln: "load_targets (files example_world TARGETS_NODE_FILE) = Inr []"
    by (simp add: example_world_def example_files_def TARGETS_NODE_FILE_def
        TARGETS_MINIO_FILE_def)
  have nn: "\<not> (\<exists>t \<in> set []. \<exists>e. alias_differs t ''X'' = Inl e)"
    by simp
  show ?thesis
    using register_same_name_two_addresses
      [where ?env1.0 = example_env and ?env2.0 = example_env and name = "''X''"
         and ?port1.0 = 9100 and ?port2.0 = 9100 and w = example_world,
        OF example_env_ledger_up(1,2) example_env_ledger_up(1,2) ne d wr wr
          lm example_targets_no_raise ln nn refl refl]
      ne d lm ln
    by blast
qed

section \<open>Forming a cluster again: the creation time\<close>

text \<open>
  C1, as the code has it. When a cluster of the given name exists, the request passes
  validation, the join command is accepted and the ledger answers, the cluster records are
  the old ones, none added and none removed, with \<open>created_at\<close> of every record of that
  name set to the timestamp of the request: the \<open>SET\<close> of line 377 follows the \<open>MERGE\<close>
  unconditionally.
\<close>

theorem create_cluster_existing_created_at:
  assumes "2 \<le> length (parse_aliases aliases)"
    and "returncode (shell env (replicate_cmd (parse_aliases aliases))) = 0 \<or>
         contains (lower (stderr (shell env (replicate_cmd (parse_aliases aliases)))))
           ''already''"
    and "get_db_session env = None" and "session_run env 0 = None"
    and "name \<in> set (map c_name (clusters (ledger w)))"
  shows "clusters (ledger (snd (create_cluster env name aliases w))) =
           map (\<lambda>c. if c_name c = name then c\<lparr>c_created_at := timestamp env\<rparr> else c)
             (clusters (ledger w))"
  using assms(3,4,5)
  by (simp add: create_cluster_accepted [OF assms(1,2)] update_cluster_ledger_clusters
      merge_cluster_def)

theorem create_cluster_existing_created_at_witness:
  "2 \<le> length (parse_aliases ''a,b'') \<and>
   ''prod'' \<in> set (map c_name (clusters (ledger prod_world))) \<and>
   clusters (ledger (snd (create_cluster example_env ''prod'' ''a,b'' prod_world))) =
     [\<lparr>c_id = 1, c_name = ''prod'', c_created_at = 200\<rparr>]"
proof -
  have len: "2 \<le> length (parse_aliases ''a,b'')"
    by (simp add: parse_aliases_a_b)
  have ex: "''prod'' \<in> set (map c_name (clusters (ledger prod_world)))"
    by (simp add: prod_world_def)
  show ?thesis
    using create_cluster_existing_created_at
      [OF len example_join_accepted(1) example_env_ledger_up(1,2) ex] len ex
    by (simp add: prod_world_def example_env_def)
qed

text \<open>
  C1 as stated does not hold: forming \<open>prod\<close> again at time 200, in a ledger where it was
  created at time 100, leaves the one cluster \<open>prod\<close> with \<open>created_at\<close> 200.
\<close>

theorem create_cluster_resets_created_at:
  "map c_created_at (clusters (ledger prod_world)) = [100] \<and>
   map c_name (clusters (ledger (snd (create_cluster example_env ''prod'' ''a,b''
                                        prod_world)))) = [''prod''] \<and>
   map c_created_at (clusters (ledger (snd (create_cluster example_env ''prod'' ''a,b''
                                              prod_world)))) = [200]"
proof -
  have len: "2 \<le> length (parse_aliases ''a,b'')"
    by (simp add: parse_aliases_a_b)
  have "clusters (ledger (snd (create_cluster example_env ''prod'' ''a,b'' prod_world))) =
          clusters (merge_cluster ''prod'' (timestamp example_env) (ledger prod_world))"
    by (simp add: create_cluster_accepted [OF len example_join_accepted(1)]
        update_cluster_ledger_clusters example_env_ledger_up)
  also have "\<dots> = [\<lparr>c_id = 1, c_name = ''prod'', c_created_at = 200\<rparr>]"
    by (simp add: merge_cluster_def prod_world_def example_env_def)
  finally show ?thesis by (simp add: prod_world_def)
qed

section \<open>Forming a cluster: a ledger that fails\<close>

text \<open>
  C2, as the code has it. Once validation has passed and the join command is accepted, the
  request answers with the success response, members and resolved addresses included,
  whatever the ledger does: the handler of lines 388-389 prints the exception and goes on.
  When the connection or the first query fails, the ledger is left as it was.
\<close>

theorem create_cluster_ledger_failure_swallowed:
  assumes "2 \<le> length (parse_aliases aliases)"
    and "returncode (shell env (replicate_cmd (parse_aliases aliases))) = 0 \<or>
         contains (lower (stderr (shell env (replicate_cmd (parse_aliases aliases)))))
           ''already''"
  shows "fst (create_cluster env name aliases w) =
           Inr (success_response name (parse_aliases aliases)
                  (resolve_aliases env (parse_aliases aliases))) \<and>
         (get_db_session env \<noteq> None \<or> session_run env 0 \<noteq> None \<longrightarrow>
            ledger (snd (create_cluster env name aliases w)) = ledger w)"
  by (simp add: create_cluster_accepted [OF assms] update_cluster_ledger_failed)

theorem create_cluster_ledger_failure_swallowed_witness:
  "2 \<le> length (parse_aliases ''a,b'') \<and>
   get_db_session ledger_down_env \<noteq> None \<and>
   fst (create_cluster ledger_down_env ''prod'' ''a,b'' prod_world) =
     Inr (success_response ''prod'' [''a'', ''b''] [(''a'', ''10.0.0.1'')]) \<and>
   ledger (snd (create_cluster ledger_down_env ''prod'' ''a,b'' prod_world)) =
     ledger prod_world"
proof -
  have len: "2 \<le> length (parse_aliases ''a,b'')"
    by (simp add: parse_aliases_a_b)
  have down: "get_db_session ledger_down_env \<noteq> None"
    by (simp add: get_db_session_def ledger_down_env_def)
  show ?thesis
    using create_cluster_ledger_failure_swallowed
      [OF len example_join_accepted(2), of "''prod''" prod_world] len down
    by (simp add: parse_aliases_a_b ledger_down_resolve example_resolve)
qed


text \<open>
  C2 as stated does not hold: with an unreachable ledger, whose session raises the 503, the
  request for \<open>prod\<close> over \<open>a,b\<close> still returns the success response, and no cluster is
  recorded.
\<close>

theorem create_cluster_succeeds_without_ledger:
  "2 \<le> length (parse_aliases ''a,b'') \<and>
   get_db_session ledger_down_env =
     Some (HTTPException 503 ''Ledger is warming up, please wait.'') \<and>
   fst (create_cluster ledger_down_env ''prod'' ''a,b'' empty_world) =
     Inr (JObj [(''status'', JStr ''success''),
                (''cluster'', JStr ''prod''),
                (''members'', JArr [JStr ''a'', JStr ''b'']),
                (''resolved_ips'', JObj [(''a'', JStr ''10.0.0.1'')])]) \<and>
   ledger (snd (create_cluster ledger_down_env ''prod'' ''a,b'' empty_world)) = empty_ledger"
proof -
  have len: "2 \<le> length (parse_aliases ''a,b'')"
    by (simp add: parse_aliases_a_b)
  have down: "get_db_session ledger_down_env =
      Some (HTTPException 503 ''Ledger is warming up, please wait.'')"
    by (simp add: get_db_session_def ledger_down_env_def)
  have "fst (create_cluster ledger_down_env ''prod'' ''a,b'' empty_world) =
      Inr (success_response ''prod'' [''a'', ''b''] [(''a'', ''10.0.0.1'')])"
    by (simp add: create_cluster_accepted [OF len example_join_accepted(2)]
        parse_aliases_a_b ledger_down_resolve example_resolve)
  moreover have "ledger (snd (create_cluster ledger_down_env ''prod'' ''a,b'' empty_world)) =
      empty_ledger"
    using down
    by (simp add: create_cluster_accepted [OF len example_join_accepted(2)]
        update_cluster_ledger_failed empty_world_def)
  ultimately show ?thesis using len down by (simp add: success_response_def)
qed

end
